theory Spec2Isabelle
  imports Main "HOL-Library.Sublist"
begin

section \<open>Values\<close>

text \<open>
  The controller of \<^verbatim>\<open>static/js/main.js\<close> handles JavaScript values that come
  from form fields, from JSON documents sent by the server and from its own literals.
  The primitive values modelled are \<^verbatim>\<open>undefined\<close>, \<^verbatim>\<open>null\<close>, the booleans and
  strings. Strings are sequences of bytes (the UTF-8 encoding of the text). Numbers
  (IEEE doubles) are not represented.
\<close>

datatype jsval = JUndefined | JNull | JBool bool | JStr string

text \<open>
  A JSON document, as \<^verbatim>\<open>JSON.parse\<close> returns it: a primitive value, or an object whose
  members are primitive values, in the order of the text. Nested objects and arrays are
  not represented; the HTTP contract of the generation service has none.
\<close>

datatype json = JPrim jsval | JObj "(string \<times> jsval) list"

text \<open>Truthiness, as \<^verbatim>\<open>if (x)\<close> and \<^verbatim>\<open>x ? a : b\<close> test it.\<close>

fun truthy :: "jsval \<Rightarrow> bool" where
  "truthy JUndefined = False"
| "truthy JNull = False"
| "truthy (JBool b) = b"
| "truthy (JStr s) = (s \<noteq> [])"

text \<open>The string conversion of the language, as template literals apply it.\<close>

fun to_string :: "jsval \<Rightarrow> string" where
  "to_string JUndefined = ''undefined''"
| "to_string JNull = ''null''"
| "to_string (JBool b) = (if b then ''true'' else ''false'')"
| "to_string (JStr s) = s"

text \<open>
  The conversion applied by the setter of \<^verbatim>\<open>innerText\<close>: \<^verbatim>\<open>null\<close> becomes the empty
  string, any other value is converted as usual.
\<close>

fun to_inner_text :: "jsval \<Rightarrow> string" where
  "to_inner_text JNull = []"
| "to_inner_text v = to_string v"

section \<open>The page\<close>

text \<open>
  The elements the controller addresses by identifier, each with the one property the
  controller writes: \<^verbatim>\<open>form-submit.disabled\<close>, \<^verbatim>\<open>loading.style.display\<close>,
  \<^verbatim>\<open>result.style.display\<close>, \<^verbatim>\<open>error.style.display\<close>, \<^verbatim>\<open>error-details.innerText\<close>,
  \<^verbatim>\<open>result-image.src\<close> and \<^verbatim>\<open>result-caption.innerHTML\<close>. All seven elements exist.
\<close>

record page =
  submit_disabled :: bool
  loading_display :: string
  result_display :: string
  error_display :: string
  error_details_text :: string
  result_image_src :: string
  result_caption_html :: string

subsection \<open>setStartLoading\<close>

definition setStartLoading :: "page \<Rightarrow> page" where
  "setStartLoading p =
     (let p = p\<lparr>submit_disabled := True\<rparr>;
          p = p\<lparr>loading_display := ''block''\<rparr>;
          p = p\<lparr>result_display := ''none''\<rparr>;
          p = p\<lparr>error_display := ''none''\<rparr>
      in p)"

subsection \<open>setStopLoading\<close>

text \<open>The default of the parameter \<^verbatim>\<open>errorMsg\<close>: the text "Unknown error" followed by a
  space and the crying-face emoji U+1F622, here in UTF-8.\<close>

definition default_errorMsg :: string where
  "default_errorMsg = ''Unknown error '' @ [CHR 0xF0, CHR 0x9F, CHR 0x98, CHR 0xA2]"

text \<open>
  An argument that is absent is \<^verbatim>\<open>undefined\<close>, and a parameter default replaces exactly
  the value \<^verbatim>\<open>undefined\<close>.
\<close>

definition setStopLoading :: "jsval \<Rightarrow> jsval \<Rightarrow> page \<Rightarrow> page" where
  "setStopLoading isError errorMsg0 p =
     (let errorMsg = (if errorMsg0 = JUndefined then JStr default_errorMsg else errorMsg0);
          p = p\<lparr>submit_disabled := False\<rparr>;
          p = p\<lparr>loading_display := ''none''\<rparr>;
          p = p\<lparr>error_display := (if truthy isError then ''block'' else ''none'')\<rparr>;
          p = p\<lparr>error_details_text := to_inner_text errorMsg\<rparr>;
          p = p\<lparr>result_display := (if truthy isError then ''none'' else ''block'')\<rparr>
      in p)"

section \<open>The request URL\<close>

text \<open>
  An object with string keys keeps its properties in the order of their first assignment;
  assigning to a key that exists replaces its value in place.
\<close>

fun set_prop :: "(string \<times> 'v) list \<Rightarrow> string \<Rightarrow> 'v \<Rightarrow> (string \<times> 'v) list" where
  "set_prop [] k v = [(k, v)]"
| "set_prop ((k', v') # ps) k v =
     (if k' = k then (k, v) # ps else (k', v') # set_prop ps k v)"

text \<open>Lines 49 to 59 of \<^verbatim>\<open>handleGeneration\<close>: the object \<^verbatim>\<open>queryParams\<close>.\<close>

definition queryParams :: "jsval \<Rightarrow> jsval \<Rightarrow> jsval \<Rightarrow> (string \<times> jsval) list" where
  "queryParams background text_model blur =
     (let q = [];
          q = (if truthy background then set_prop q ''background'' background else q);
          q = (if truthy text_model then set_prop q ''text_model'' text_model else q);
          q = (if truthy blur then set_prop q ''blur'' blur else q)
      in q)"

text \<open>
  \<^verbatim>\<open>URLSearchParams\<close> built from an object holds one pair per property, the value
  converted to a string, and prints itself in the \<^verbatim>\<open>application/x-www-form-urlencoded\<close>
  format: a space becomes \<^verbatim>\<open>+\<close>, the bytes of letters, digits and \<^verbatim>\<open>* - . _\<close> stay, every
  other byte becomes \<^verbatim>\<open>%\<close> and two upper-case hexadecimal digits; name and value are
  joined by \<^verbatim>\<open>=\<close>, pairs by \<^verbatim>\<open>&\<close>.
\<close>

definition urlencoded_plain :: "char \<Rightarrow> bool" where
  "urlencoded_plain c \<longleftrightarrow>
     c \<in> set ''*-._0123456789ABCDEFGHIJKLMNOPQRSTUVWXYZabcdefghijklmnopqrstuvwxyz''"

definition hex_digit :: "nat \<Rightarrow> char" where
  "hex_digit n = ''0123456789ABCDEF'' ! (n mod 16)"

definition urlencode_byte :: "char \<Rightarrow> string" where
  "urlencode_byte c =
     (if c = CHR '' '' then ''+''
      else if urlencoded_plain c then [c]
      else [CHR ''%'', hex_digit (of_char c div 16), hex_digit (of_char c mod 16)])"

definition urlencode :: "string \<Rightarrow> string" where
  "urlencode s = concat (map urlencode_byte s)"

fun join_amp :: "string list \<Rightarrow> string" where
  "join_amp [] = []"
| "join_amp [x] = x"
| "join_amp (x # y # ys) = x @ ''&'' @ join_amp (y # ys)"

definition URLSearchParams :: "(string \<times> jsval) list \<Rightarrow> (string \<times> string) list" where
  "URLSearchParams obj = map (\<lambda>(k, v). (k, to_string v)) obj"

definition searchParams_toString :: "(string \<times> string) list \<Rightarrow> string" where
  "searchParams_toString ps = join_amp (map (\<lambda>(k, v). urlencode k @ ''='' @ urlencode v) ps)"

text \<open>Lines 61 to 66 of \<^verbatim>\<open>handleGeneration\<close>: the variable \<^verbatim>\<open>url\<close>.\<close>

definition request_url :: "jsval \<Rightarrow> jsval \<Rightarrow> jsval \<Rightarrow> string" where
  "request_url background text_model blur =
     (let q = queryParams background text_model blur;
          url = ''/generate/''
      in if length (map fst q) > 0
         then url @ ''?'' @ searchParams_toString (URLSearchParams q)
         else url)"

text \<open>
  How the receiver of a URL reads its query: the text after the first \<^verbatim>\<open>?\<close>, cut at every
  \<^verbatim>\<open>&\<close>, each piece cut at its first \<^verbatim>\<open>=\<close>. Names and values are left encoded.
\<close>

fun split_amp :: "string \<Rightarrow> string list" where
  "split_amp [] = [[]]"
| "split_amp (c # cs) =
     (if c = CHR ''&'' then [] # split_amp cs
      else (case split_amp cs of [] \<Rightarrow> [[c]] | w # ws \<Rightarrow> (c # w) # ws))"

definition read_pair :: "string \<Rightarrow> string \<times> string" where
  "read_pair kv =
     (takeWhile (\<lambda>c. c \<noteq> CHR ''='') kv, drop 1 (dropWhile (\<lambda>c. c \<noteq> CHR ''='') kv))"

definition query_pairs :: "string \<Rightarrow> (string \<times> string) list" where
  "query_pairs url =
     (case dropWhile (\<lambda>c. c \<noteq> CHR ''?'') url of
        [] \<Rightarrow> []
      | _ # q \<Rightarrow> map read_pair (split_amp q))"

text \<open>The characters that structure a query, and the text of one pair.\<close>

definition separator :: "char \<Rightarrow> bool" where
  "separator c \<longleftrightarrow> c = CHR ''&'' \<or> c = CHR ''='' \<or> c = CHR ''?''"

definition pair_text :: "string \<times> jsval \<Rightarrow> string" where
  "pair_text kv = fst kv @ ''='' @ urlencode (to_string (snd kv))"

section \<open>The request\<close>

text \<open>
  A response, as far as the controller looks at it: \<^verbatim>\<open>response.ok\<close>; the headers, by
  lower-case name; the outcome of \<^verbatim>\<open>response.blob()\<close>, the bytes of the body or \<open>None\<close>
  when the promise rejects because the body cannot be read; the outcome of
  \<^verbatim>\<open>response.json()\<close>, the parsed document or \<open>None\<close> when the promise rejects because
  the body cannot be read or is not JSON.
\<close>

record response =
  resp_ok :: bool
  resp_headers :: "string \<Rightarrow> string option"
  resp_blob :: "string option"
  resp_json :: "json option"

text \<open>
  The functions of the browser the controller calls. \<^verbatim>\<open>fetch\<close> answers a URL with a
  response, or \<open>None\<close> when its promise rejects (no response received); every request
  settles. \<^verbatim>\<open>JSON.parse\<close> answers a text with a document, or \<open>None\<close> when it throws
  \<^verbatim>\<open>SyntaxError\<close>. \<^verbatim>\<open>URL.createObjectURL\<close> answers a blob with a URL for it.
\<close>

record platform =
  fetch :: "string \<Rightarrow> response option"
  JSON_parse :: "string \<Rightarrow> json option"
  createObjectURL :: "string \<Rightarrow> string"

text \<open>\<^verbatim>\<open>response.headers.get(name)\<close>: the value, or \<^verbatim>\<open>null\<close> for a header that is absent.\<close>

definition headers_get :: "response \<Rightarrow> string \<Rightarrow> jsval" where
  "headers_get response name =
     (case resp_headers response name of None \<Rightarrow> JNull | Some v \<Rightarrow> JStr v)"

text \<open>
  Reading one of the properties \<^verbatim>\<open>error\<close>, \<^verbatim>\<open>url\<close>, \<^verbatim>\<open>first_name\<close>, \<^verbatim>\<open>last_name\<close>,
  \<^verbatim>\<open>text_model\<close> of a document. On \<^verbatim>\<open>null\<close> and \<^verbatim>\<open>undefined\<close> the read throws
  \<^verbatim>\<open>TypeError\<close> (\<open>None\<close>); on a boolean or a string, and on an object without the
  property, it gives \<^verbatim>\<open>undefined\<close> (no prototype defines one of these names).
\<close>

fun get_prop :: "json \<Rightarrow> string \<Rightarrow> jsval option" where
  "get_prop (JPrim JUndefined) k = None"
| "get_prop (JPrim JNull) k = None"
| "get_prop (JPrim v) k = Some JUndefined"
| "get_prop (JObj kvs) k = (case map_of kvs k of None \<Rightarrow> Some JUndefined | Some v \<Rightarrow> Some v)"

text \<open>
  The run of one submission: the page, and the calls of \<^verbatim>\<open>setStartLoading\<close> and
  \<^verbatim>\<open>setStopLoading\<close> made so far, oldest first, each with its arguments as passed (an
  argument left out is \<^verbatim>\<open>undefined\<close>).
\<close>

datatype call = SetStartLoading | SetStopLoading jsval jsval

record run =
  page_of :: page
  calls :: "call list"

definition call_setStartLoading :: "run \<Rightarrow> run" where
  "call_setStartLoading w =
     \<lparr>page_of = setStartLoading (page_of w), calls = calls w @ [SetStartLoading]\<rparr>"

definition call_setStopLoading :: "jsval \<Rightarrow> jsval \<Rightarrow> run \<Rightarrow> run" where
  "call_setStopLoading isError errorMsg w =
     \<lparr>page_of = setStopLoading isError errorMsg (page_of w),
      calls = calls w @ [SetStopLoading isError errorMsg]\<rparr>"

definition onGenerateError :: "jsval \<Rightarrow> run \<Rightarrow> run" where
  "onGenerateError error w = call_setStopLoading (JBool True) error w"

text \<open>
  The template literal of lines 87 to 89. Its four property reads happen in the order
  written, and the first that throws ends the callback before anything is assigned.
\<close>

definition caption :: "json \<Rightarrow> json \<Rightarrow> string option" where
  "caption pictureCredits generationInfo =
     (case get_prop pictureCredits ''url'' of None \<Rightarrow> None | Some url \<Rightarrow>
      case get_prop pictureCredits ''first_name'' of None \<Rightarrow> None | Some first_name \<Rightarrow>
      case get_prop pictureCredits ''last_name'' of None \<Rightarrow> None | Some last_name \<Rightarrow>
      case get_prop generationInfo ''text_model'' of None \<Rightarrow> None | Some text_model \<Rightarrow>
        Some (''Background picture by <a href='' @ [CHR 0x27] @ to_string url @ [CHR 0x27]
              @ ''>'' @ to_string first_name @ '' '' @ to_string last_name
              @ '' on Unsplash</a>.<br />'' @ [CHR 0x0A]
              @ replicate (5::nat) (CHR 0x09) @ ''Generated with '' @ to_string text_model
              @ '' on Hugging Face.'' @ [CHR 0x0A]
              @ replicate (5::nat) (CHR 0x09)))"

text \<open>
  The callback of \<^verbatim>\<open>response.blob().then\<close>, lines 72 to 90. An exception in it
  (\<^verbatim>\<open>JSON.parse\<close> on a header, a property read on \<^verbatim>\<open>null\<close>) ends it where it is
  thrown; no handler is attached to this promise.
\<close>

definition on_blob :: "platform \<Rightarrow> response \<Rightarrow> string \<Rightarrow> run \<Rightarrow> run" where
  "on_blob P response myBlob w0 =
     (let w = call_setStopLoading (JBool False) JUndefined w0;
          objectURL = createObjectURL P myBlob;
          w = w\<lparr>page_of := (page_of w)\<lparr>result_image_src := objectURL\<rparr>\<rparr>
      in case JSON_parse P (to_string (headers_get response ''x-image-credits'')) of
           None \<Rightarrow> w
         | Some pictureCredits \<Rightarrow>
       (case JSON_parse P (to_string (headers_get response ''x-generation-parameters'')) of
           None \<Rightarrow> w
         | Some generationInfo \<Rightarrow>
       (case caption pictureCredits generationInfo of
           None \<Rightarrow> w
         | Some c \<Rightarrow> w\<lparr>page_of := (page_of w)\<lparr>result_caption_html := c\<rparr>\<rparr>)))"

text \<open>
  The callback of \<^verbatim>\<open>response.json().then\<close> with its \<^verbatim>\<open>catch\<close>, lines 92 to 99: a
  rejected \<^verbatim>\<open>json()\<close> and an exception of the callback (reading \<^verbatim>\<open>error\<close> of
  \<^verbatim>\<open>null\<close>) both reach the handler.
\<close>

definition on_failure_response :: "response \<Rightarrow> run \<Rightarrow> run" where
  "on_failure_response response w =
     (case resp_json response of
        None \<Rightarrow> onGenerateError (JStr ''Unknown error'') w
      | Some json \<Rightarrow>
          (case get_prop json ''error'' of
             None \<Rightarrow> onGenerateError (JStr ''Unknown error'') w
           | Some error \<Rightarrow> onGenerateError error w))"

text \<open>
  \<^verbatim>\<open>handleGeneration\<close>, with its callbacks run to the end. The outer \<^verbatim>\<open>catch\<close> of
  line 102 handles a rejected \<^verbatim>\<open>fetch\<close>. The promise of \<^verbatim>\<open>response.blob()\<close> is
  neither returned from the outer callback nor given a handler, so when it rejects
  nothing more runs.
\<close>

definition handleGeneration :: "platform \<Rightarrow> jsval \<Rightarrow> jsval \<Rightarrow> jsval \<Rightarrow> page \<Rightarrow> run" where
  "handleGeneration P background text_model blur p =
     (let w = call_setStartLoading \<lparr>page_of = p, calls = []\<rparr>;
          url = request_url background text_model blur
      in case fetch P url of
           None \<Rightarrow> onGenerateError (JStr ''Unknown error'') w
         | Some response \<Rightarrow>
             if resp_ok response
             then (case resp_blob response of
                     None \<Rightarrow> w
                   | Some myBlob \<Rightarrow> on_blob P response myBlob w)
             else on_failure_response response w)"

text \<open>The calls of \<^verbatim>\<open>setStopLoading\<close> in a run.\<close>

fun is_stop :: "call \<Rightarrow> bool" where
  "is_stop SetStartLoading = False"
| "is_stop (SetStopLoading isError errorMsg) = True"

section \<open>Example pages, servers and responses\<close>

text \<open>The page before any submission.\<close>

definition idle_page :: page where
  "idle_page = \<lparr>submit_disabled = False, loading_display = ''none'', result_display = ''none'',
     error_display = ''none'', error_details_text = [], result_image_src = [],
     result_caption_html = []\<rparr>"

text \<open>
  A server that answers with a success status and a body that cannot be read to its end
  (the connection drops during the download): \<^verbatim>\<open>response.blob()\<close> rejects.
\<close>

definition response_body_unreadable :: response where
  "response_body_unreadable =
     \<lparr>resp_ok = True, resp_headers = Map.empty, resp_blob = None, resp_json = None\<rparr>"

definition platform_body_unreadable :: platform where
  "platform_body_unreadable =
     \<lparr>fetch = (\<lambda>url. Some response_body_unreadable), JSON_parse = (\<lambda>text. None),
      createObjectURL = (\<lambda>blob. ''blob:1'')\<rparr>"

text \<open>No network: \<^verbatim>\<open>fetch\<close> rejects.\<close>

definition platform_offline :: platform where
  "platform_offline =
     \<lparr>fetch = (\<lambda>url. None), JSON_parse = (\<lambda>text. None),
      createObjectURL = (\<lambda>blob. ''blob:1'')\<rparr>"

text \<open>A failure response whose JSON body has no member \<^verbatim>\<open>error\<close>.\<close>

definition response_not_found :: response where
  \<open>response_not_found =
     \<lparr>resp_ok = False, resp_headers = Map.empty, resp_blob = Some ''{"detail":"Not Found"}'',
      resp_json = Some (JObj [(''detail'', JStr ''Not Found'')])\<rparr>\<close>

definition platform_not_found :: platform where
  "platform_not_found =
     \<lparr>fetch = (\<lambda>url. Some response_not_found), JSON_parse = (\<lambda>text. None),
      createObjectURL = (\<lambda>blob. ''blob:1'')\<rparr>"

text \<open>A failure response whose JSON body carries the message "rate limited".\<close>

definition response_rate_limited :: response where
  \<open>response_rate_limited =
     \<lparr>resp_ok = False, resp_headers = Map.empty, resp_blob = Some ''{"error":"rate limited"}'',
      resp_json = Some (JObj [(''error'', JStr ''rate limited'')])\<rparr>\<close>

definition platform_rate_limited :: platform where
  "platform_rate_limited =
     \<lparr>fetch = (\<lambda>url. Some response_rate_limited), JSON_parse = (\<lambda>text. None),
      createObjectURL = (\<lambda>blob. ''blob:1'')\<rparr>"

text \<open>A failure response whose body is not JSON.\<close>

definition response_bad_gateway :: response where
  "response_bad_gateway =
     \<lparr>resp_ok = False, resp_headers = Map.empty, resp_blob = Some ''<html>Bad Gateway</html>'',
      resp_json = None\<rparr>"

definition platform_bad_gateway :: platform where
  "platform_bad_gateway =
     \<lparr>fetch = (\<lambda>url. Some response_bad_gateway), JSON_parse = (\<lambda>text. None),
      createObjectURL = (\<lambda>blob. ''blob:1'')\<rparr>"

text \<open>
  The two header texts of the end-to-end example, the documents \<^verbatim>\<open>JSON.parse\<close> makes of
  them, and a server that answers the example request with them.
\<close>

definition credits_text :: string where
  \<open>credits_text = ''{"url":"http://u","first_name":"A","last_name":"B"}''\<close>

definition parameters_text :: string where
  \<open>parameters_text = ''{"text_model":"flux"}''\<close>

definition credits_document :: json where
  "credits_document =
     JObj [(''url'', JStr ''http://u''), (''first_name'', JStr ''A''), (''last_name'', JStr ''B'')]"

definition parameters_document :: json where
  "parameters_document = JObj [(''text_model'', JStr ''flux'')]"

definition response_image :: response where
  "response_image =
     \<lparr>resp_ok = True,
      resp_headers = [''x-image-credits'' \<mapsto> credits_text,
                      ''x-generation-parameters'' \<mapsto> parameters_text],
      resp_blob = Some ''PNG'', resp_json = None\<rparr>"

definition platform_image :: platform where
  "platform_image =
     \<lparr>fetch = (\<lambda>url. if url = ''/generate/?background=beach&text_model=flux&blur=1''
                     then Some response_image else None),
      JSON_parse = (\<lambda>text. if text = credits_text then Some credits_document
                          else if text = parameters_text then Some parameters_document
                          else None),
      createObjectURL = (\<lambda>blob. ''blob:1'')\<rparr>"

text \<open>A server that answers every request with the same response.\<close>

definition platform_answering :: "response \<Rightarrow> platform" where
  "platform_answering response =
     \<lparr>fetch = (\<lambda>url. Some response), JSON_parse = (\<lambda>text. None),
      createObjectURL = (\<lambda>blob. ''blob:1'')\<rparr>"

text \<open>
  Failure responses whose member \<^verbatim>\<open>error\<close> is \<^verbatim>\<open>null\<close> or \<^verbatim>\<open>false\<close>, and failure
  responses whose body is the JSON text \<^verbatim>\<open>null\<close> or \<^verbatim>\<open>true\<close>.
\<close>

definition response_error_null :: response where
  \<open>response_error_null =
     \<lparr>resp_ok = False, resp_headers = Map.empty, resp_blob = Some ''{"error":null}'',
      resp_json = Some (JObj [(''error'', JNull)])\<rparr>\<close>

definition response_error_false :: response where
  \<open>response_error_false =
     \<lparr>resp_ok = False, resp_headers = Map.empty, resp_blob = Some ''{"error":false}'',
      resp_json = Some (JObj [(''error'', JBool False)])\<rparr>\<close>

definition response_body_null :: response where
  "response_body_null =
     \<lparr>resp_ok = False, resp_headers = Map.empty, resp_blob = Some ''null'',
      resp_json = Some (JPrim JNull)\<rparr>"

definition response_body_true :: response where
  "response_body_true =
     \<lparr>resp_ok = False, resp_headers = Map.empty, resp_blob = Some ''true'',
      resp_json = Some (JPrim (JBool True))\<rparr>"

text \<open>
  The server of the example again, with the same status and headers, but a body that
  cannot be read to its end.
\<close>

definition response_image_unreadable :: response where
  "response_image_unreadable = response_image\<lparr>resp_blob := None\<rparr>"

definition platform_image_unreadable :: platform where
  "platform_image_unreadable =
     platform_image\<lparr>fetch := (\<lambda>url. if url = ''/generate/?background=beach&text_model=flux&blur=1''
                     then Some response_image_unreadable else None)\<rparr>"

section \<open>The UI state controller\<close>

text \<open>
  C7. \<^verbatim>\<open>setStartLoading\<close>, called on any page, leaves the submit control disabled, the
  loading region shown, the result region hidden and the error region hidden, and a second
  call changes nothing.
\<close>

theorem setStartLoading_post:
  "submit_disabled (setStartLoading p) = True
   \<and> loading_display (setStartLoading p) = ''block''
   \<and> result_display (setStartLoading p) = ''none''
   \<and> error_display (setStartLoading p) = ''none''
   \<and> setStartLoading (setStartLoading p) = setStartLoading p"
  by (simp add: setStartLoading_def)

text \<open>
  C6. After \<^verbatim>\<open>setStopLoading\<close>, whatever its arguments and the page before, the loading
  region is hidden, the submit control is enabled, and exactly one of the result region
  and the error region is shown: the error region when \<^verbatim>\<open>isError\<close> is truthy, the result
  region otherwise; for a boolean \<^verbatim>\<open>isError\<close>, the error region if and only if it is
  \<^verbatim>\<open>true\<close> and the result region if and only if it is \<^verbatim>\<open>false\<close>.
\<close>

theorem setStopLoading_post:
  "loading_display (setStopLoading isError errorMsg p) = ''none''
   \<and> submit_disabled (setStopLoading isError errorMsg p) = False
   \<and> error_display (setStopLoading isError errorMsg p)
       = (if truthy isError then ''block'' else ''none'')
   \<and> result_display (setStopLoading isError errorMsg p)
       = (if truthy isError then ''none'' else ''block'')
   \<and> (error_display (setStopLoading isError errorMsg p) = ''block'')
       \<noteq> (result_display (setStopLoading isError errorMsg p) = ''block'')
   \<and> (error_display (setStopLoading (JBool b) errorMsg p) = ''block'') = b
   \<and> (error_display (setStopLoading (JBool b) errorMsg p) = ''none'') = (\<not> b)
   \<and> (result_display (setStopLoading (JBool b) errorMsg p) = ''block'') = (\<not> b)
   \<and> (result_display (setStopLoading (JBool b) errorMsg p) = ''none'') = b"
  by (simp add: setStopLoading_def)

text \<open>
  C8. \<^verbatim>\<open>setStopLoading(true, "boom")\<close> leaves the error region shown with the details
  text "boom"; \<^verbatim>\<open>setStopLoading(true)\<close>, the message left out, leaves it shown with the
  default text of the parameter.
\<close>

theorem setStopLoading_error_message:
  "error_display (setStopLoading (JBool True) (JStr ''boom'') p) = ''block''
   \<and> error_details_text (setStopLoading (JBool True) (JStr ''boom'') p) = ''boom''
   \<and> result_display (setStopLoading (JBool True) (JStr ''boom'') p) = ''none''
   \<and> loading_display (setStopLoading (JBool True) (JStr ''boom'') p) = ''none''
   \<and> submit_disabled (setStopLoading (JBool True) (JStr ''boom'') p) = False
   \<and> error_display (setStopLoading (JBool True) JUndefined p) = ''block''
   \<and> error_details_text (setStopLoading (JBool True) JUndefined p) = default_errorMsg"
  by (simp add: setStopLoading_def)

section \<open>The request builder\<close>

lemma hex_digit_mem: "hex_digit n \<in> set ''0123456789ABCDEF''"
  unfolding hex_digit_def by (rule nth_mem) simp

lemma hex_digit_not_separator: "\<not> separator (hex_digit n)"
proof
  assume "separator (hex_digit n)"
  then consider "hex_digit n = CHR ''&''" | "hex_digit n = CHR ''=''" | "hex_digit n = CHR ''?''"
    unfolding separator_def by blast
  then show False
  proof cases
    case 1
    with hex_digit_mem [of n] have "CHR ''&'' \<in> set ''0123456789ABCDEF''" by simp
    then show False by simp
  next
    case 2
    with hex_digit_mem [of n] have "CHR ''='' \<in> set ''0123456789ABCDEF''" by simp
    then show False by simp
  next
    case 3
    with hex_digit_mem [of n] have "CHR ''?'' \<in> set ''0123456789ABCDEF''" by simp
    then show False by simp
  qed
qed

lemma plain_not_separator: "urlencoded_plain c \<Longrightarrow> \<not> separator c"
proof
  assume p: "urlencoded_plain c" and "separator c"
  then consider "c = CHR ''&''" | "c = CHR ''=''" | "c = CHR ''?''"
    unfolding separator_def by blast
  then show False
  proof cases
    case 1
    with p have "urlencoded_plain CHR ''&''" by simp
    then show False by (simp add: urlencoded_plain_def)
  next
    case 2
    with p have "urlencoded_plain CHR ''=''" by simp
    then show False by (simp add: urlencoded_plain_def)
  next
    case 3
    with p have "urlencoded_plain CHR ''?''" by simp
    then show False by (simp add: urlencoded_plain_def)
  qed
qed

lemma urlencode_byte_chars:
  assumes "c' \<in> set (urlencode_byte c)"
  shows "\<not> separator c'"
proof (cases "c = CHR '' ''")
  case True
  with assms have "c' = CHR ''+''" by (simp add: urlencode_byte_def)
  then show ?thesis by (simp add: separator_def)
next
  case sp: False
  show ?thesis
  proof (cases "urlencoded_plain c")
    case True
    with sp assms have "c' = c" by (simp add: urlencode_byte_def)
    with True show ?thesis by (simp add: plain_not_separator)
  next
    case False
    with sp assms have "c' = CHR ''%'' \<or> c' = hex_digit (of_char c div 16)
        \<or> c' = hex_digit (of_char c mod 16)"
      by (simp add: urlencode_byte_def)
    then show ?thesis
      using hex_digit_not_separator by (auto simp: separator_def)
  qed
qed

lemma urlencode_chars: "c' \<in> set (urlencode s) \<Longrightarrow> \<not> separator c'"
  unfolding urlencode_def using urlencode_byte_chars by auto

lemma urlencode_no_amp: "CHR ''&'' \<notin> set (urlencode s)"
  using urlencode_chars [of "CHR ''&''" s] by (auto simp: separator_def)

lemma urlencode_no_eq: "CHR ''='' \<notin> set (urlencode s)"
  using urlencode_chars [of "CHR ''=''" s] by (auto simp: separator_def)


lemma split_amp_plain: "CHR ''&'' \<notin> set xs \<Longrightarrow> split_amp xs = [xs]"
  by (induction xs) auto

lemma split_amp_append:
  "CHR ''&'' \<notin> set xs \<Longrightarrow> split_amp (xs @ CHR ''&'' # ys) = xs # split_amp ys"
  by (induction xs) auto

lemma urlencode_key:
  "urlencode ''background'' = ''background''"
  "urlencode ''text_model'' = ''text_model''"
  "urlencode ''blur'' = ''blur''"
  by (simp_all add: urlencode_def urlencode_byte_def urlencoded_plain_def)

lemma queryParams_filter:
  "queryParams bg tm bl =
     filter (\<lambda>(k, v). truthy v) [(''background'', bg), (''text_model'', tm), (''blur'', bl)]"
  by (simp add: queryParams_def)

lemma request_url_form:
  "request_url bg tm bl =
     ''/generate/'' @
     (if queryParams bg tm bl = [] then []
      else ''?'' @ join_amp (map pair_text (queryParams bg tm bl)))"
  by (simp add: request_url_def queryParams_filter URLSearchParams_def
      searchParams_toString_def urlencode_key pair_text_def)

lemma read_pair_text:
  "CHR ''='' \<notin> set k \<Longrightarrow> read_pair (k @ CHR ''='' # v) = (k, v)"
  by (induction k) (auto simp: read_pair_def)

lemma split_join:
  "\<forall>x \<in> set xs. CHR ''&'' \<notin> set x \<Longrightarrow> xs \<noteq> [] \<Longrightarrow> split_amp (join_amp xs) = xs"
proof (induction xs rule: join_amp.induct)
  case 1
  then show ?case by simp
next
  case (2 x)
  then show ?case by (simp add: split_amp_plain)
next
  case (3 x y ys)
  then show ?case by (simp add: split_amp_append)
qed

lemma query_pairs_generate:
  "query_pairs (''/generate/'' @ CHR ''?'' # q) = map read_pair (split_amp q)"
  by (simp add: query_pairs_def read_pair_def)

lemma query_pairs_generate_none: "query_pairs ''/generate/'' = []"
  by (simp add: query_pairs_def)


lemma queryParams_keys:
  "kv \<in> set (queryParams bg tm bl) \<Longrightarrow> fst kv \<in> {''background'', ''text_model'', ''blur''}"
  by (auto simp: queryParams_filter split: if_splits)

lemma key_chars:
  "k \<in> {''background'', ''text_model'', ''blur''} \<Longrightarrow> CHR ''&'' \<notin> set k \<and> CHR ''='' \<notin> set k"
  by auto

lemma pair_text_no_amp:
  "kv \<in> set (queryParams bg tm bl) \<Longrightarrow> CHR ''&'' \<notin> set (pair_text kv)"
  using key_chars [OF queryParams_keys] by (simp add: pair_text_def urlencode_no_amp)

lemma read_pair_pair_text:
  "kv \<in> set (queryParams bg tm bl) \<Longrightarrow>
     read_pair (pair_text kv) = (fst kv, urlencode (to_string (snd kv)))"
  using key_chars [OF queryParams_keys] by (simp add: pair_text_def read_pair_text)

lemma query_pairs_request_url:
  "query_pairs (request_url bg tm bl) =
     map (\<lambda>kv. (fst kv, urlencode (to_string (snd kv)))) (queryParams bg tm bl)"
proof (cases "queryParams bg tm bl = []")
  case True
  then show ?thesis by (simp add: request_url_form query_pairs_generate_none)
next
  case False
  have "split_amp (join_amp (map pair_text (queryParams bg tm bl)))
          = map pair_text (queryParams bg tm bl)"
    using False by (intro split_join) (auto simp: pair_text_no_amp)
  moreover have "request_url bg tm bl
          = ''/generate/'' @ CHR ''?'' # join_amp (map pair_text (queryParams bg tm bl))"
    using False by (simp add: request_url_form)
  ultimately have "query_pairs (request_url bg tm bl)
          = map read_pair (map pair_text (queryParams bg tm bl))"
    by (simp only: query_pairs_generate)
  also have "\<dots> = map (\<lambda>kv. (fst kv, urlencode (to_string (snd kv)))) (queryParams bg tm bl)"
    by (simp add: read_pair_pair_text)
  finally show ?thesis .
qed

text \<open>
  C5. With all three parameters absent the URL is exactly \<^verbatim>\<open>/generate/\<close>.
\<close>

theorem request_url_no_parameters:
  "request_url JUndefined JUndefined JUndefined = ''/generate/''"
  by (simp add: request_url_def queryParams_def)

text \<open>
  C4. For all values of the three parameters, the query of the URL, as its receiver reads
  it, holds exactly the parameters that are truthy, in the order \<^verbatim>\<open>background\<close>,
  \<^verbatim>\<open>text_model\<close>, \<^verbatim>\<open>blur\<close>, each under its own name with its value URL-encoded; a
  parameter that is absent or falsy leaves no key. The URL is \<^verbatim>\<open>/generate/\<close>, followed,
  when some parameter is truthy, by \<^verbatim>\<open>?\<close> and the pairs joined by \<^verbatim>\<open>&\<close>. With only
  \<^verbatim>\<open>text_model = "gpt"\<close> it is \<^verbatim>\<open>/generate/?text_model=gpt\<close>.
\<close>

theorem request_url_query:
  "query_pairs (request_url background text_model blur) =
     map (\<lambda>(k, v). (k, urlencode (to_string v)))
       (filter (\<lambda>(k, v). truthy v)
          [(''background'', background), (''text_model'', text_model), (''blur'', blur)])
   \<and> request_url background text_model blur =
       ''/generate/'' @
       (if \<not> truthy background \<and> \<not> truthy text_model \<and> \<not> truthy blur then []
        else ''?'' @ join_amp (map (\<lambda>(k, v). k @ ''='' @ urlencode (to_string v))
          (filter (\<lambda>(k, v). truthy v)
            [(''background'', background), (''text_model'', text_model), (''blur'', blur)])))
   \<and> request_url JUndefined (JStr ''gpt'') JUndefined = ''/generate/?text_model=gpt''"
proof (intro conjI)
  show "query_pairs (request_url background text_model blur) =
     map (\<lambda>(k, v). (k, urlencode (to_string v)))
       (filter (\<lambda>(k, v). truthy v)
          [(''background'', background), (''text_model'', text_model), (''blur'', blur)])"
    unfolding query_pairs_request_url queryParams_filter by (simp add: case_prod_unfold)
  show "request_url background text_model blur =
       ''/generate/'' @
       (if \<not> truthy background \<and> \<not> truthy text_model \<and> \<not> truthy blur then []
        else ''?'' @ join_amp (map (\<lambda>(k, v). k @ ''='' @ urlencode (to_string v))
          (filter (\<lambda>(k, v). truthy v)
            [(''background'', background), (''text_model'', text_model), (''blur'', blur)])))"
    unfolding request_url_form queryParams_filter by (simp add: pair_text_def)
  show "request_url JUndefined (JStr ''gpt'') JUndefined = ''/generate/?text_model=gpt''"
    by (simp add: request_url_form queryParams_filter pair_text_def urlencode_def
        urlencode_byte_def urlencoded_plain_def)
qed

section \<open>The request lifecycle\<close>

text \<open>The run in each outcome of the request.\<close>

lemma calls_start: "calls (call_setStartLoading \<lparr>page_of = p, calls = []\<rparr>) = [SetStartLoading]"
  by (simp add: call_setStartLoading_def)

lemma on_blob_calls: "calls (on_blob P r b w) = calls w @ [SetStopLoading (JBool False) JUndefined]"
  by (simp add: on_blob_def call_setStopLoading_def Let_def split: option.splits)

lemma on_failure_response_calls:
  "calls (on_failure_response r w) =
     calls w @ [SetStopLoading (JBool True)
       (case resp_json r of
          None \<Rightarrow> JStr ''Unknown error''
        | Some json \<Rightarrow>
            (case get_prop json ''error'' of
               None \<Rightarrow> JStr ''Unknown error''
             | Some error \<Rightarrow> error))]"
  by (simp add: on_failure_response_def onGenerateError_def call_setStopLoading_def
      split: option.splits)

lemma run_fetch_rejected:
  "fetch P (request_url background text_model blur) = None \<Longrightarrow>
     handleGeneration P background text_model blur p =
       onGenerateError (JStr ''Unknown error'') (call_setStartLoading \<lparr>page_of = p, calls = []\<rparr>)"
  by (simp add: handleGeneration_def)

lemma run_failure_status:
  "fetch P (request_url background text_model blur) = Some response \<Longrightarrow> \<not> resp_ok response \<Longrightarrow>
     handleGeneration P background text_model blur p =
       on_failure_response response (call_setStartLoading \<lparr>page_of = p, calls = []\<rparr>)"
  by (simp add: handleGeneration_def)

lemma run_blob_read:
  "fetch P (request_url background text_model blur) = Some response \<Longrightarrow> resp_ok response \<Longrightarrow>
     resp_blob response = Some myBlob \<Longrightarrow>
     handleGeneration P background text_model blur p =
       on_blob P response myBlob (call_setStartLoading \<lparr>page_of = p, calls = []\<rparr>)"
  by (simp add: handleGeneration_def)

lemma onGenerateError_run:
  "onGenerateError error (call_setStartLoading \<lparr>page_of = p, calls = []\<rparr>) =
     \<lparr>page_of = setStopLoading (JBool True) error (setStartLoading p),
      calls = [SetStartLoading, SetStopLoading (JBool True) error]\<rparr>"
  by (simp add: onGenerateError_def call_setStopLoading_def call_setStartLoading_def)

lemma setStopLoading_error_page:
  "setStopLoading (JBool True) errorMsg (setStartLoading p) =
     p\<lparr>submit_disabled := False, loading_display := ''none'', result_display := ''none'',
       error_display := ''block'',
       error_details_text :=
         to_inner_text (if errorMsg = JUndefined then JStr default_errorMsg else errorMsg)\<rparr>"
  by (simp add: setStopLoading_def setStartLoading_def)

lemma on_failure_response_run:
  "on_failure_response response (call_setStartLoading \<lparr>page_of = p, calls = []\<rparr>) =
     onGenerateError
       (case resp_json response of
          None \<Rightarrow> JStr ''Unknown error''
        | Some json \<Rightarrow>
            (case get_prop json ''error'' of
               None \<Rightarrow> JStr ''Unknown error''
             | Some error \<Rightarrow> error))
       (call_setStartLoading \<lparr>page_of = p, calls = []\<rparr>)"
  by (simp add: on_failure_response_def split: option.splits)

lemma on_blob_error_region:
  "error_details_text (page_of (on_blob P response myBlob w)) = default_errorMsg
   \<and> error_display (page_of (on_blob P response myBlob w)) = ''none''
   \<and> result_display (page_of (on_blob P response myBlob w)) = ''block''
   \<and> loading_display (page_of (on_blob P response myBlob w)) = ''none''
   \<and> submit_disabled (page_of (on_blob P response myBlob w)) = False"
  by (simp add: on_blob_def Let_def call_setStopLoading_def setStopLoading_def
      split: option.splits)

lemma on_blob_caption:
  assumes "JSON_parse P (to_string (headers_get response ''x-image-credits'')) = Some pictureCredits"
    and "JSON_parse P (to_string (headers_get response ''x-generation-parameters'')) = Some generationInfo"
    and "caption pictureCredits generationInfo = Some c"
  shows "result_caption_html (page_of (on_blob P response myBlob w)) = c"
  using assms by (simp add: on_blob_def Let_def)

lemma caption_example:
  "caption credits_document parameters_document =
     Some (''Background picture by <a href='' @ [CHR 0x27] @ ''http://u'' @ [CHR 0x27] @ ''>''
           @ ''A B'' @ '' on Unsplash</a>.<br />'' @ [CHR 0x0A] @ replicate (5::nat) (CHR 0x09)
           @ ''Generated with '' @ ''flux'' @ '' on Hugging Face.'' @ [CHR 0x0A]
           @ replicate (5::nat) (CHR 0x09))"
  by (simp add: caption_def credits_document_def parameters_document_def)

lemma request_url_example:
  "request_url (JStr ''beach'') (JStr ''flux'') (JStr ''1'') =
     ''/generate/?background=beach&text_model=flux&blur=1''"
  by (simp add: request_url_form queryParams_filter pair_text_def urlencode_def
      urlencode_byte_def urlencoded_plain_def)

text \<open>
  The number of calls of \<^verbatim>\<open>setStopLoading\<close> in a run: one, except for a response with a
  success status whose body cannot be read, where there is none.
\<close>

lemma handleGeneration_stop_calls:
  "length (filter is_stop (calls (handleGeneration P background text_model blur p))) =
     (case fetch P (request_url background text_model blur) of
        None \<Rightarrow> 1
      | Some response \<Rightarrow> if resp_ok response \<and> resp_blob response = None then 0 else 1)"
  by (simp add: handleGeneration_def Let_def calls_start on_blob_calls
      on_failure_response_calls onGenerateError_def call_setStopLoading_def
      split: option.splits)

text \<open>
  C1. Every run of \<^verbatim>\<open>handleGeneration\<close> calls \<^verbatim>\<open>setStartLoading\<close> once and then
  \<^verbatim>\<open>setStopLoading\<close> exactly once, whatever the outcome of the request. The code does
  not: when the response has a success status and its body cannot be read, no call of
  \<^verbatim>\<open>setStopLoading\<close> follows, for any parameters and any page, and the page stays as
  \<^verbatim>\<open>setStartLoading\<close> left it, the loading region shown and the submit control disabled.
\<close>

theorem handleGeneration_blob_rejected: "calls (handleGeneration platform_body_unreadable background text_model blur p) = [SetStartLoading]
  \<and> filter is_stop (calls (handleGeneration platform_body_unreadable background text_model blur p)) = []
  \<and> page_of (handleGeneration platform_body_unreadable background text_model blur p) = setStartLoading p
  \<and> loading_display (page_of (handleGeneration platform_body_unreadable background text_model blur p)) = ''block''
  \<and> submit_disabled (page_of (handleGeneration platform_body_unreadable background text_model blur p)) = True"
  by (simp add: handleGeneration_def platform_body_unreadable_def response_body_unreadable_def
      call_setStartLoading_def setStartLoading_def)

text \<open>
  C3, as amended. When \<^verbatim>\<open>fetch\<close> rejects, \<^verbatim>\<open>setStopLoading(true, "Unknown error")\<close> is
  called, once: the error region is shown with the details text "Unknown error", the
  submit control is enabled, the loading and result regions are hidden.
\<close>

theorem handleGeneration_transport_failure:
  assumes "fetch P (request_url background text_model blur) = None"
  shows "calls (handleGeneration P background text_model blur p) =
           [SetStartLoading, SetStopLoading (JBool True) (JStr ''Unknown error'')]
       \<and> error_display (page_of (handleGeneration P background text_model blur p)) = ''block''
       \<and> error_details_text (page_of (handleGeneration P background text_model blur p)) = ''Unknown error''
       \<and> submit_disabled (page_of (handleGeneration P background text_model blur p)) = False
       \<and> loading_display (page_of (handleGeneration P background text_model blur p)) = ''none''
       \<and> result_display (page_of (handleGeneration P background text_model blur p)) = ''none''"
  by (simp add: run_fetch_rejected [OF assms] onGenerateError_run setStopLoading_error_page)

text \<open>The amended C3 without a network.\<close>

theorem handleGeneration_transport_failure_witness:
  "fetch platform_offline (request_url JUndefined JUndefined JUndefined) = None
   \<and> calls (handleGeneration platform_offline JUndefined JUndefined JUndefined idle_page) =
           [SetStartLoading, SetStopLoading (JBool True) (JStr ''Unknown error'')]
   \<and> error_details_text (page_of (handleGeneration platform_offline JUndefined JUndefined JUndefined idle_page)) = ''Unknown error''"
proof -
  have h: "fetch platform_offline (request_url JUndefined JUndefined JUndefined) = None"
    by (simp add: platform_offline_def)
  show ?thesis using h handleGeneration_transport_failure [OF h, of idle_page] by simp
qed

text \<open>
  C3 as stated fails without a network: the message passed and displayed is not the
  default text with the emoji.
\<close>

theorem handleGeneration_transport_failure_default:
  "fetch platform_offline (request_url JUndefined JUndefined JUndefined) = None
   \<and> calls (handleGeneration platform_offline JUndefined JUndefined JUndefined idle_page)
       \<noteq> [SetStartLoading, SetStopLoading (JBool True) (JStr default_errorMsg)]
   \<and> error_details_text (page_of (handleGeneration platform_offline JUndefined JUndefined JUndefined idle_page))
       \<noteq> default_errorMsg"
proof -
  have h: "fetch platform_offline (request_url JUndefined JUndefined JUndefined) = None"
    by (simp add: platform_offline_def)
  show ?thesis
    by (simp add: h run_fetch_rejected [OF h] onGenerateError_run setStopLoading_error_page
        default_errorMsg_def)
qed

text \<open>The whole run for a response with a failure status.\<close>

lemma failure_run:
  assumes "fetch P (request_url background text_model blur) = Some response"
    and "\<not> resp_ok response"
  shows "handleGeneration P background text_model blur p =
     \<lparr>page_of = p\<lparr>submit_disabled := False, loading_display := ''none'', result_display := ''none'',
          error_display := ''block'',
          error_details_text :=
            (case resp_json response of
               None \<Rightarrow> ''Unknown error''
             | Some json \<Rightarrow>
                (case get_prop json ''error'' of
                   None \<Rightarrow> ''Unknown error''
                 | Some error \<Rightarrow>
                     to_inner_text (if error = JUndefined then JStr default_errorMsg else error)))\<rparr>,
      calls = [SetStartLoading, SetStopLoading (JBool True)
         (case resp_json response of
            None \<Rightarrow> JStr ''Unknown error''
          | Some json \<Rightarrow>
             (case get_prop json ''error'' of
                None \<Rightarrow> JStr ''Unknown error''
              | Some error \<Rightarrow> error))]\<rparr>"
  by (simp add: run_failure_status [OF assms] on_failure_response_run onGenerateError_run
      setStopLoading_error_page split: option.splits)

lemma answering_fetch: "fetch (platform_answering response) url = Some response"
  by (simp add: platform_answering_def)

text \<open>
  C2, as amended. For a response with a failure status \<^verbatim>\<open>setStopLoading\<close> is called once,
  with \<^verbatim>\<open>true\<close> and a message, and the error region is shown. When the body is a JSON
  object with a member \<^verbatim>\<open>error\<close>, the message is the value of that member, and the
  details text is exactly the string the server sent when it is a string, empty when it
  is \<^verbatim>\<open>null\<close>, and "true" or "false" when it is a boolean. When \<^verbatim>\<open>response.json()\<close>
  rejects, or the body is the JSON text \<^verbatim>\<open>null\<close> (reading \<^verbatim>\<open>error\<close> of it throws), the
  message is "Unknown error" and so is the details text. When the body is a JSON object
  without a member \<^verbatim>\<open>error\<close>, or a JSON boolean or string, the message is \<^verbatim>\<open>undefined\<close>
  and the details text is the default of the parameter: "Unknown error", a space and the
  emoji U+1F622 (bytes F0 9F 98 A2). The cases \<^verbatim>\<open>undefined\<close> of the two datatypes, which no
  JSON text produces, are listed with the cases that behave like them.
\<close>

theorem handleGeneration_failure_message:
  assumes "fetch P (request_url background text_model blur) = Some response"
    and "\<not> resp_ok response"
  shows "(resp_json response = Some (JObj members) \<and> map_of members ''error'' = Some (JStr message)
           \<longrightarrow> calls (handleGeneration P background text_model blur p) =
                 [SetStartLoading, SetStopLoading (JBool True) (JStr message)]
               \<and> error_display (page_of (handleGeneration P background text_model blur p)) = ''block''
               \<and> error_details_text (page_of (handleGeneration P background text_model blur p)) = message)
       \<and> (resp_json response = Some (JObj members) \<and> map_of members ''error'' = Some JNull
           \<longrightarrow> calls (handleGeneration P background text_model blur p) =
                 [SetStartLoading, SetStopLoading (JBool True) JNull]
               \<and> error_display (page_of (handleGeneration P background text_model blur p)) = ''block''
               \<and> error_details_text (page_of (handleGeneration P background text_model blur p)) = [])
       \<and> (resp_json response = Some (JObj members) \<and> map_of members ''error'' = Some (JBool b)
           \<longrightarrow> calls (handleGeneration P background text_model blur p) =
                 [SetStartLoading, SetStopLoading (JBool True) (JBool b)]
               \<and> error_display (page_of (handleGeneration P background text_model blur p)) = ''block''
               \<and> error_details_text (page_of (handleGeneration P background text_model blur p)) =
                   (if b then ''true'' else ''false''))
       \<and> (resp_json response = None \<or> resp_json response = Some (JPrim JNull)
            \<or> resp_json response = Some (JPrim JUndefined)
           \<longrightarrow> calls (handleGeneration P background text_model blur p) =
                 [SetStartLoading, SetStopLoading (JBool True) (JStr ''Unknown error'')]
               \<and> error_display (page_of (handleGeneration P background text_model blur p)) = ''block''
               \<and> error_details_text (page_of (handleGeneration P background text_model blur p)) =
                   ''Unknown error'')
       \<and> (resp_json response = Some (JObj members) \<and> map_of members ''error'' = None
            \<or> resp_json response = Some (JObj members) \<and> map_of members ''error'' = Some JUndefined
            \<or> resp_json response = Some (JPrim (JBool b))
            \<or> resp_json response = Some (JPrim (JStr message))
           \<longrightarrow> calls (handleGeneration P background text_model blur p) =
                 [SetStartLoading, SetStopLoading (JBool True) JUndefined]
               \<and> error_display (page_of (handleGeneration P background text_model blur p)) = ''block''
               \<and> error_details_text (page_of (handleGeneration P background text_model blur p)) =
                   ''Unknown error '' @ [CHR 0xF0, CHR 0x9F, CHR 0x98, CHR 0xA2])"
  unfolding failure_run [OF assms]
  by (auto simp: default_errorMsg_def)

text \<open>The amended C2 on seven servers, at least one for each case.\<close>

theorem handleGeneration_failure_message_witness:
  "(fetch platform_rate_limited (request_url JUndefined JUndefined JUndefined) = Some response_rate_limited
    \<and> \<not> resp_ok response_rate_limited
    \<and> resp_json response_rate_limited = Some (JObj [(''error'', JStr ''rate limited'')])
    \<and> map_of [(''error'', JStr ''rate limited'')] ''error'' = Some (JStr ''rate limited'')
    \<and> calls (handleGeneration platform_rate_limited JUndefined JUndefined JUndefined idle_page) =
         [SetStartLoading, SetStopLoading (JBool True) (JStr ''rate limited'')]
    \<and> error_details_text (page_of (handleGeneration platform_rate_limited JUndefined JUndefined JUndefined idle_page)) = ''rate limited'')
   \<and> (fetch (platform_answering response_error_null) (request_url JUndefined JUndefined JUndefined) = Some response_error_null
    \<and> \<not> resp_ok response_error_null
    \<and> resp_json response_error_null = Some (JObj [(''error'', JNull)])
    \<and> map_of [(''error'', JNull)] ''error'' = Some JNull
    \<and> calls (handleGeneration (platform_answering response_error_null) JUndefined JUndefined JUndefined idle_page) =
         [SetStartLoading, SetStopLoading (JBool True) JNull]
    \<and> error_details_text (page_of (handleGeneration (platform_answering response_error_null) JUndefined JUndefined JUndefined idle_page)) = [])
   \<and> (fetch (platform_answering response_error_false) (request_url JUndefined JUndefined JUndefined) = Some response_error_false
    \<and> \<not> resp_ok response_error_false
    \<and> resp_json response_error_false = Some (JObj [(''error'', JBool False)])
    \<and> map_of [(''error'', JBool False)] ''error'' = Some (JBool False)
    \<and> calls (handleGeneration (platform_answering response_error_false) JUndefined JUndefined JUndefined idle_page) =
         [SetStartLoading, SetStopLoading (JBool True) (JBool False)]
    \<and> error_details_text (page_of (handleGeneration (platform_answering response_error_false) JUndefined JUndefined JUndefined idle_page)) = ''false'')
   \<and> (fetch platform_bad_gateway (request_url JUndefined JUndefined JUndefined) = Some response_bad_gateway
    \<and> \<not> resp_ok response_bad_gateway
    \<and> resp_json response_bad_gateway = None
    \<and> calls (handleGeneration platform_bad_gateway JUndefined JUndefined JUndefined idle_page) =
         [SetStartLoading, SetStopLoading (JBool True) (JStr ''Unknown error'')]
    \<and> error_details_text (page_of (handleGeneration platform_bad_gateway JUndefined JUndefined JUndefined idle_page)) = ''Unknown error'')
   \<and> (fetch (platform_answering response_body_null) (request_url JUndefined JUndefined JUndefined) = Some response_body_null
    \<and> \<not> resp_ok response_body_null
    \<and> resp_json response_body_null = Some (JPrim JNull)
    \<and> calls (handleGeneration (platform_answering response_body_null) JUndefined JUndefined JUndefined idle_page) =
         [SetStartLoading, SetStopLoading (JBool True) (JStr ''Unknown error'')]
    \<and> error_details_text (page_of (handleGeneration (platform_answering response_body_null) JUndefined JUndefined JUndefined idle_page)) = ''Unknown error'')
   \<and> (fetch platform_not_found (request_url JUndefined JUndefined JUndefined) = Some response_not_found
    \<and> \<not> resp_ok response_not_found
    \<and> resp_json response_not_found = Some (JObj [(''detail'', JStr ''Not Found'')])
    \<and> map_of [(''detail'', JStr ''Not Found'')] ''error'' = None
    \<and> calls (handleGeneration platform_not_found JUndefined JUndefined JUndefined idle_page) =
         [SetStartLoading, SetStopLoading (JBool True) JUndefined]
    \<and> error_details_text (page_of (handleGeneration platform_not_found JUndefined JUndefined JUndefined idle_page)) =
         ''Unknown error '' @ [CHR 0xF0, CHR 0x9F, CHR 0x98, CHR 0xA2])
   \<and> (fetch (platform_answering response_body_true) (request_url JUndefined JUndefined JUndefined) = Some response_body_true
    \<and> \<not> resp_ok response_body_true
    \<and> resp_json response_body_true = Some (JPrim (JBool True))
    \<and> calls (handleGeneration (platform_answering response_body_true) JUndefined JUndefined JUndefined idle_page) =
         [SetStartLoading, SetStopLoading (JBool True) JUndefined]
    \<and> error_details_text (page_of (handleGeneration (platform_answering response_body_true) JUndefined JUndefined JUndefined idle_page)) =
         ''Unknown error '' @ [CHR 0xF0, CHR 0x9F, CHR 0x98, CHR 0xA2])"
proof -
  let ?u = "request_url JUndefined JUndefined JUndefined"
  have f1: "fetch platform_rate_limited ?u = Some response_rate_limited"
    by (simp add: platform_rate_limited_def)
  have n1: "\<not> resp_ok response_rate_limited" by (simp add: response_rate_limited_def)
  have j1: "resp_json response_rate_limited = Some (JObj [(''error'', JStr ''rate limited'')])"
    by (simp add: response_rate_limited_def)
  have f2: "fetch (platform_answering response_error_null) ?u = Some response_error_null"
    by (rule answering_fetch)
  have n2: "\<not> resp_ok response_error_null" by (simp add: response_error_null_def)
  have j2: "resp_json response_error_null = Some (JObj [(''error'', JNull)])"
    by (simp add: response_error_null_def)
  have f3: "fetch (platform_answering response_error_false) ?u = Some response_error_false"
    by (rule answering_fetch)
  have n3: "\<not> resp_ok response_error_false" by (simp add: response_error_false_def)
  have j3: "resp_json response_error_false = Some (JObj [(''error'', JBool False)])"
    by (simp add: response_error_false_def)
  have f4: "fetch platform_bad_gateway ?u = Some response_bad_gateway"
    by (simp add: platform_bad_gateway_def)
  have n4: "\<not> resp_ok response_bad_gateway" by (simp add: response_bad_gateway_def)
  have j4: "resp_json response_bad_gateway = None" by (simp add: response_bad_gateway_def)
  have f5: "fetch (platform_answering response_body_null) ?u = Some response_body_null"
    by (rule answering_fetch)
  have n5: "\<not> resp_ok response_body_null" by (simp add: response_body_null_def)
  have j5: "resp_json response_body_null = Some (JPrim JNull)"
    by (simp add: response_body_null_def)
  have f6: "fetch platform_not_found ?u = Some response_not_found"
    by (simp add: platform_not_found_def)
  have n6: "\<not> resp_ok response_not_found" by (simp add: response_not_found_def)
  have j6: "resp_json response_not_found = Some (JObj [(''detail'', JStr ''Not Found'')])"
    by (simp add: response_not_found_def)
  have f7: "fetch (platform_answering response_body_true) ?u = Some response_body_true"
    by (rule answering_fetch)
  have n7: "\<not> resp_ok response_body_true" by (simp add: response_body_true_def)
  have j7: "resp_json response_body_true = Some (JPrim (JBool True))"
    by (simp add: response_body_true_def)
  have r1: "calls (handleGeneration platform_rate_limited JUndefined JUndefined JUndefined idle_page) =
         [SetStartLoading, SetStopLoading (JBool True) (JStr ''rate limited'')]
    \<and> error_details_text (page_of (handleGeneration platform_rate_limited JUndefined JUndefined JUndefined idle_page)) = ''rate limited''"
    using handleGeneration_failure_message [OF f1 n1, where members = "[(''error'', JStr ''rate limited'')]"
        and message = "''rate limited''" and p = idle_page] j1 by simp
  have r2: "calls (handleGeneration (platform_answering response_error_null) JUndefined JUndefined JUndefined idle_page) =
         [SetStartLoading, SetStopLoading (JBool True) JNull]
    \<and> error_details_text (page_of (handleGeneration (platform_answering response_error_null) JUndefined JUndefined JUndefined idle_page)) = []"
    using handleGeneration_failure_message [OF f2 n2, where members = "[(''error'', JNull)]" and p = idle_page] j2 by simp
  have r3: "calls (handleGeneration (platform_answering response_error_false) JUndefined JUndefined JUndefined idle_page) =
         [SetStartLoading, SetStopLoading (JBool True) (JBool False)]
    \<and> error_details_text (page_of (handleGeneration (platform_answering response_error_false) JUndefined JUndefined JUndefined idle_page)) = ''false''"
    using handleGeneration_failure_message [OF f3 n3, where members = "[(''error'', JBool False)]" and b = False
        and p = idle_page] j3 by simp
  have r4: "calls (handleGeneration platform_bad_gateway JUndefined JUndefined JUndefined idle_page) =
         [SetStartLoading, SetStopLoading (JBool True) (JStr ''Unknown error'')]
    \<and> error_details_text (page_of (handleGeneration platform_bad_gateway JUndefined JUndefined JUndefined idle_page)) = ''Unknown error''"
    using handleGeneration_failure_message [OF f4 n4, where p = idle_page] j4 by simp
  have r5: "calls (handleGeneration (platform_answering response_body_null) JUndefined JUndefined JUndefined idle_page) =
         [SetStartLoading, SetStopLoading (JBool True) (JStr ''Unknown error'')]
    \<and> error_details_text (page_of (handleGeneration (platform_answering response_body_null) JUndefined JUndefined JUndefined idle_page)) = ''Unknown error''"
    using handleGeneration_failure_message [OF f5 n5, where p = idle_page] j5 by simp
  have r6: "calls (handleGeneration platform_not_found JUndefined JUndefined JUndefined idle_page) =
         [SetStartLoading, SetStopLoading (JBool True) JUndefined]
    \<and> error_details_text (page_of (handleGeneration platform_not_found JUndefined JUndefined JUndefined idle_page)) =
         ''Unknown error '' @ [CHR 0xF0, CHR 0x9F, CHR 0x98, CHR 0xA2]"
    using handleGeneration_failure_message [OF f6 n6, where members = "[(''detail'', JStr ''Not Found'')]"
        and p = idle_page] j6 by simp
  have r7: "calls (handleGeneration (platform_answering response_body_true) JUndefined JUndefined JUndefined idle_page) =
         [SetStartLoading, SetStopLoading (JBool True) JUndefined]
    \<and> error_details_text (page_of (handleGeneration (platform_answering response_body_true) JUndefined JUndefined JUndefined idle_page)) =
         ''Unknown error '' @ [CHR 0xF0, CHR 0x9F, CHR 0x98, CHR 0xA2]"
    using handleGeneration_failure_message [OF f7 n7, where b = True and p = idle_page] j7 by simp
  show ?thesis
    using f1 n1 j1 f2 n2 j2 f3 n3 j3 f4 n4 j4 f5 n5 j5 f6 n6 j6 f7 n7 j7 r1 r2 r3 r4 r5 r6 r7
    by simp
qed

text \<open>
  C2 as stated fails on a failure response whose JSON body has no member \<^verbatim>\<open>error\<close>: the
  message passed is not "Unknown error", and neither is the text displayed.
\<close>

theorem handleGeneration_error_field_absent:
  "fetch platform_not_found (request_url JUndefined JUndefined JUndefined) = Some response_not_found
   \<and> \<not> resp_ok response_not_found
   \<and> resp_json response_not_found = Some (JObj [(''detail'', JStr ''Not Found'')])
   \<and> map_of [(''detail'', JStr ''Not Found'')] ''error'' = None
   \<and> calls (handleGeneration platform_not_found JUndefined JUndefined JUndefined idle_page)
       \<noteq> [SetStartLoading, SetStopLoading (JBool True) (JStr ''Unknown error'')]
   \<and> error_details_text (page_of (handleGeneration platform_not_found JUndefined JUndefined JUndefined idle_page))
       \<noteq> ''Unknown error''"
proof -
  have f3: "fetch platform_not_found (request_url JUndefined JUndefined JUndefined) = Some response_not_found"
    by (simp add: platform_not_found_def)
  have n3: "\<not> resp_ok response_not_found" by (simp add: response_not_found_def)
  have j3: "resp_json response_not_found = Some (JObj [(''detail'', JStr ''Not Found'')])"
    by (simp add: response_not_found_def)
  show ?thesis
    by (simp add: f3 n3 j3 run_failure_status [OF f3 n3] on_failure_response_run
        onGenerateError_run setStopLoading_error_page default_errorMsg_def)
qed

text \<open>The runs of the example, with the header texts under their names.\<close>

lemma success_caption_run:
  assumes "fetch P (request_url background text_model blur) = Some response"
    and "resp_ok response"
    and "resp_blob response = Some myBlob"
    and "resp_headers response ''x-image-credits'' = Some credits_text"
    and "resp_headers response ''x-generation-parameters'' = Some parameters_text"
    and "JSON_parse P credits_text = Some credits_document"
    and "JSON_parse P parameters_text = Some parameters_document"
  shows "calls (handleGeneration P background text_model blur p) =
           [SetStartLoading, SetStopLoading (JBool False) JUndefined]"
    and "result_display (page_of (handleGeneration P background text_model blur p)) = ''block''"
    and "result_caption_html (page_of (handleGeneration P background text_model blur p)) =
           (''Background picture by <a href='' @ [CHR 0x27] @ ''http://u'' @ [CHR 0x27] @ ''>'')
           @ ''A B'' @ ('' on Unsplash</a>.<br />'' @ [CHR 0x0A] @ replicate (5::nat) (CHR 0x09)
           @ ''Generated with '' @ ''flux'' @ '' on Hugging Face.'' @ [CHR 0x0A]
           @ replicate (5::nat) (CHR 0x09))"
proof -
  let ?w = "call_setStartLoading \<lparr>page_of = p, calls = []\<rparr>"
  have run: "handleGeneration P background text_model blur p = on_blob P response myBlob ?w"
    using assms(1-3) by (rule run_blob_read)
  have pc: "JSON_parse P (to_string (headers_get response ''x-image-credits'')) = Some credits_document"
    using assms(4,6) by (simp add: headers_get_def)
  have gi: "JSON_parse P (to_string (headers_get response ''x-generation-parameters'')) = Some parameters_document"
    using assms(5,7) by (simp add: headers_get_def)
  show "calls (handleGeneration P background text_model blur p) =
           [SetStartLoading, SetStopLoading (JBool False) JUndefined]"
    unfolding run by (simp add: on_blob_calls calls_start)
  show "result_display (page_of (handleGeneration P background text_model blur p)) = ''block''"
    unfolding run by (simp add: on_blob_error_region)
  show "result_caption_html (page_of (handleGeneration P background text_model blur p)) =
           (''Background picture by <a href='' @ [CHR 0x27] @ ''http://u'' @ [CHR 0x27] @ ''>'')
           @ ''A B'' @ ('' on Unsplash</a>.<br />'' @ [CHR 0x0A] @ replicate (5::nat) (CHR 0x09)
           @ ''Generated with '' @ ''flux'' @ '' on Hugging Face.'' @ [CHR 0x0A]
           @ replicate (5::nat) (CHR 0x09))"
    unfolding run using on_blob_caption [OF pc gi caption_example] by simp
qed

lemma image_facts:
  \<open>fetch platform_image (request_url (JStr ''beach'') (JStr ''flux'') (JStr ''1'')) = Some response_image\<close>
  \<open>resp_ok response_image\<close>
  \<open>resp_blob response_image = Some ''PNG''\<close>
  \<open>resp_headers response_image ''x-image-credits'' = Some ''{"url":"http://u","first_name":"A","last_name":"B"}''\<close>
  \<open>resp_headers response_image ''x-generation-parameters'' = Some ''{"text_model":"flux"}''\<close>
  \<open>JSON_parse platform_image ''{"url":"http://u","first_name":"A","last_name":"B"}'' = Some (JObj [(''url'', JStr ''http://u''), (''first_name'', JStr ''A''), (''last_name'', JStr ''B'')])\<close>
  \<open>JSON_parse platform_image ''{"text_model":"flux"}'' = Some (JObj [(''text_model'', JStr ''flux'')])\<close>
  by (simp_all add: request_url_example platform_image_def response_image_def credits_text_def
      parameters_text_def credits_document_def parameters_document_def)

lemma image_unreadable_facts:
  \<open>fetch platform_image_unreadable (request_url (JStr ''beach'') (JStr ''flux'') (JStr ''1'')) = Some response_image_unreadable\<close>
  \<open>resp_ok response_image_unreadable\<close>
  \<open>resp_blob response_image_unreadable = None\<close>
  \<open>resp_headers response_image_unreadable ''x-image-credits'' = Some ''{"url":"http://u","first_name":"A","last_name":"B"}''\<close>
  \<open>resp_headers response_image_unreadable ''x-generation-parameters'' = Some ''{"text_model":"flux"}''\<close>
  \<open>JSON_parse platform_image_unreadable ''{"url":"http://u","first_name":"A","last_name":"B"}'' = Some (JObj [(''url'', JStr ''http://u''), (''first_name'', JStr ''A''), (''last_name'', JStr ''B'')])\<close>
  \<open>JSON_parse platform_image_unreadable ''{"text_model":"flux"}'' = Some (JObj [(''text_model'', JStr ''flux'')])\<close>
  by (simp_all add: request_url_example platform_image_unreadable_def platform_image_def
      response_image_unreadable_def response_image_def credits_text_def parameters_text_def
      credits_document_def parameters_document_def)

lemma unreadable_run:
  "fetch P (request_url background text_model blur) = Some response \<Longrightarrow> resp_ok response \<Longrightarrow>
     resp_blob response = None \<Longrightarrow>
     handleGeneration P background text_model blur p =
       \<lparr>page_of = setStartLoading p, calls = [SetStartLoading]\<rparr>"
  by (simp add: handleGeneration_def call_setStartLoading_def)

text \<open>
  C9, as amended. For a response with a success status and a body that can be read, whose
  headers \<^verbatim>\<open>x-image-credits\<close> and \<^verbatim>\<open>x-generation-parameters\<close> are the two texts of the
  example, which \<^verbatim>\<open>JSON.parse\<close> reads as the two objects of the example,
  \<^verbatim>\<open>setStopLoading(false)\<close> is called, the result region is shown, and the caption
  assigned is the text of the template with "http://u", "A", "B" and "flux" in their
  places: it contains "A B" and it contains "flux".
\<close>

theorem handleGeneration_success_caption:
  assumes \<open>fetch P (request_url background text_model blur) = Some response\<close>
    and \<open>resp_ok response\<close>
    and \<open>resp_blob response = Some myBlob\<close>
    and \<open>resp_headers response ''x-image-credits'' = Some ''{"url":"http://u","first_name":"A","last_name":"B"}''\<close>
    and \<open>resp_headers response ''x-generation-parameters'' = Some ''{"text_model":"flux"}''\<close>
    and \<open>JSON_parse P ''{"url":"http://u","first_name":"A","last_name":"B"}'' =
           Some (JObj [(''url'', JStr ''http://u''), (''first_name'', JStr ''A''), (''last_name'', JStr ''B'')])\<close>
    and \<open>JSON_parse P ''{"text_model":"flux"}'' = Some (JObj [(''text_model'', JStr ''flux'')])\<close>
  shows \<open>calls (handleGeneration P background text_model blur p) =
           [SetStartLoading, SetStopLoading (JBool False) JUndefined]
       \<and> result_display (page_of (handleGeneration P background text_model blur p)) = ''block''
       \<and> result_caption_html (page_of (handleGeneration P background text_model blur p)) =
           ''Background picture by <a href='' @ [CHR 0x27] @ ''http://u'' @ [CHR 0x27]
           @ ''>A B on Unsplash</a>.<br />''
           @ [CHR 0x0A, CHR 0x09, CHR 0x09, CHR 0x09, CHR 0x09, CHR 0x09]
           @ ''Generated with flux on Hugging Face.''
           @ [CHR 0x0A, CHR 0x09, CHR 0x09, CHR 0x09, CHR 0x09, CHR 0x09]
       \<and> sublist ''A B'' (result_caption_html (page_of (handleGeneration P background text_model blur p)))
       \<and> sublist ''flux'' (result_caption_html (page_of (handleGeneration P background text_model blur p)))\<close>
proof -
  note r = success_caption_run [unfolded credits_text_def parameters_text_def
      credits_document_def parameters_document_def, OF assms, of p]
  have "sublist ''A B'' (result_caption_html (page_of (handleGeneration P background text_model blur p)))"
    unfolding r(3) by (rule sublist_appendI)
  moreover have "result_caption_html (page_of (handleGeneration P background text_model blur p)) =
      (''Background picture by <a href='' @ [CHR 0x27] @ ''http://u'' @ [CHR 0x27] @ ''>''
       @ ''A B'' @ '' on Unsplash</a>.<br />'' @ [CHR 0x0A] @ replicate (5::nat) (CHR 0x09)
           @ ''Generated with '') @ ''flux'' @ ('' on Hugging Face.'' @ [CHR 0x0A]
           @ replicate (5::nat) (CHR 0x09))"
    unfolding r(3) by simp
  then have "sublist ''flux'' (result_caption_html (page_of (handleGeneration P background text_model blur p)))"
    by (simp only: sublist_appendI)
  moreover have "result_caption_html (page_of (handleGeneration P background text_model blur p)) =
           ''Background picture by <a href='' @ [CHR 0x27] @ ''http://u'' @ [CHR 0x27]
           @ ''>A B on Unsplash</a>.<br />''
           @ [CHR 0x0A, CHR 0x09, CHR 0x09, CHR 0x09, CHR 0x09, CHR 0x09]
           @ ''Generated with flux on Hugging Face.''
           @ [CHR 0x0A, CHR 0x09, CHR 0x09, CHR 0x09, CHR 0x09, CHR 0x09]"
    unfolding r(3) by (simp add: eval_nat_numeral)
  ultimately show ?thesis using r(1,2) by simp
qed

text \<open>The example submission: \<^verbatim>\<open>background=beach\<close>, \<^verbatim>\<open>text_model=flux\<close>, \<^verbatim>\<open>blur=1\<close>.\<close>

theorem handleGeneration_success_caption_witness:
  \<open>fetch platform_image (request_url (JStr ''beach'') (JStr ''flux'') (JStr ''1'')) = Some response_image
   \<and> resp_ok response_image
   \<and> resp_blob response_image = Some ''PNG''
   \<and> resp_headers response_image ''x-image-credits'' = Some ''{"url":"http://u","first_name":"A","last_name":"B"}''
   \<and> resp_headers response_image ''x-generation-parameters'' = Some ''{"text_model":"flux"}''
   \<and> JSON_parse platform_image ''{"url":"http://u","first_name":"A","last_name":"B"}'' = Some (JObj [(''url'', JStr ''http://u''), (''first_name'', JStr ''A''), (''last_name'', JStr ''B'')])
   \<and> JSON_parse platform_image ''{"text_model":"flux"}'' = Some (JObj [(''text_model'', JStr ''flux'')])
   \<and> calls (handleGeneration platform_image (JStr ''beach'') (JStr ''flux'') (JStr ''1'') idle_page) =
           [SetStartLoading, SetStopLoading (JBool False) JUndefined]
   \<and> result_display (page_of (handleGeneration platform_image (JStr ''beach'') (JStr ''flux'') (JStr ''1'') idle_page)) = ''block''
   \<and> result_caption_html (page_of (handleGeneration platform_image (JStr ''beach'') (JStr ''flux'') (JStr ''1'') idle_page)) =
           ''Background picture by <a href='' @ [CHR 0x27] @ ''http://u'' @ [CHR 0x27]
           @ ''>A B on Unsplash</a>.<br />''
           @ [CHR 0x0A, CHR 0x09, CHR 0x09, CHR 0x09, CHR 0x09, CHR 0x09]
           @ ''Generated with flux on Hugging Face.''
           @ [CHR 0x0A, CHR 0x09, CHR 0x09, CHR 0x09, CHR 0x09, CHR 0x09]
   \<and> sublist ''A B'' (result_caption_html (page_of (handleGeneration platform_image (JStr ''beach'') (JStr ''flux'') (JStr ''1'') idle_page)))
   \<and> sublist ''flux'' (result_caption_html (page_of (handleGeneration platform_image (JStr ''beach'') (JStr ''flux'') (JStr ''1'') idle_page)))\<close>
proof -
  note run = handleGeneration_success_caption [OF image_facts, of idle_page]
  show ?thesis using image_facts run by blast
qed

text \<open>
  C9 as stated fails for the same submission when the response has the success status
  and the two headers but its body cannot be read: \<^verbatim>\<open>setStopLoading\<close> is not called, the
  result region stays hidden and no caption is assigned.
\<close>

theorem handleGeneration_success_unreadable_body:
  \<open>fetch platform_image_unreadable (request_url (JStr ''beach'') (JStr ''flux'') (JStr ''1'')) = Some response_image_unreadable
   \<and> resp_ok response_image_unreadable
   \<and> resp_headers response_image_unreadable ''x-image-credits'' = Some ''{"url":"http://u","first_name":"A","last_name":"B"}''
   \<and> resp_headers response_image_unreadable ''x-generation-parameters'' = Some ''{"text_model":"flux"}''
   \<and> JSON_parse platform_image_unreadable ''{"url":"http://u","first_name":"A","last_name":"B"}'' = Some (JObj [(''url'', JStr ''http://u''), (''first_name'', JStr ''A''), (''last_name'', JStr ''B'')])
   \<and> JSON_parse platform_image_unreadable ''{"text_model":"flux"}'' = Some (JObj [(''text_model'', JStr ''flux'')])
   \<and> calls (handleGeneration platform_image_unreadable (JStr ''beach'') (JStr ''flux'') (JStr ''1'') idle_page) = [SetStartLoading]
   \<and> result_display (page_of (handleGeneration platform_image_unreadable (JStr ''beach'') (JStr ''flux'') (JStr ''1'') idle_page)) = ''none''
   \<and> result_caption_html (page_of (handleGeneration platform_image_unreadable (JStr ''beach'') (JStr ''flux'') (JStr ''1'') idle_page)) = []
   \<and> \<not> sublist ''A B'' (result_caption_html (page_of (handleGeneration platform_image_unreadable (JStr ''beach'') (JStr ''flux'') (JStr ''1'') idle_page)))
   \<and> \<not> sublist ''flux'' (result_caption_html (page_of (handleGeneration platform_image_unreadable (JStr ''beach'') (JStr ''flux'') (JStr ''1'') idle_page)))\<close>
  using image_unreadable_facts
  by (simp add: unreadable_run [OF image_unreadable_facts(1-3)] setStartLoading_def idle_page_def)

text \<open>
  C10, as amended. Every call of \<^verbatim>\<open>setStopLoading\<close> writes the details text of the error
  region from its message, whatever \<^verbatim>\<open>isError\<close> is: a string as it is, \<^verbatim>\<open>null\<close> as the
  empty text, a boolean as "true" or "false", and a message left out as the default,
  "Unknown error", a space and the emoji U+1F622 (bytes F0 9F 98 A2). In particular
  \<^verbatim>\<open>setStopLoading(false)\<close>, which every response with a success status and a body that
  can be read leads to, leaves the hidden error details at that default text.
\<close>

theorem setStopLoading_overwrites_details:
  "error_details_text (setStopLoading isError JUndefined p) = ''Unknown error '' @ [CHR 0xF0, CHR 0x9F, CHR 0x98, CHR 0xA2]
   \<and> error_details_text (setStopLoading isError (JStr message) p) = message
   \<and> error_details_text (setStopLoading isError JNull p) = []
   \<and> error_details_text (setStopLoading isError (JBool b) p) = (if b then ''true'' else ''false'')
   \<and> error_details_text (setStopLoading (JBool False) JUndefined p) = ''Unknown error '' @ [CHR 0xF0, CHR 0x9F, CHR 0x98, CHR 0xA2]
   \<and> error_display (setStopLoading (JBool False) JUndefined p) = ''none''
   \<and> (fetch P (request_url background text_model blur) = Some response
        \<and> resp_ok response \<and> resp_blob response = Some myBlob
      \<longrightarrow> calls (handleGeneration P background text_model blur p) =
            [SetStartLoading, SetStopLoading (JBool False) JUndefined]
          \<and> error_details_text (page_of (handleGeneration P background text_model blur p)) =
              ''Unknown error '' @ [CHR 0xF0, CHR 0x9F, CHR 0x98, CHR 0xA2]
          \<and> error_display (page_of (handleGeneration P background text_model blur p)) = ''none'')"
proof (intro conjI impI)
  assume h: "fetch P (request_url background text_model blur) = Some response
        \<and> resp_ok response \<and> resp_blob response = Some myBlob"
  then have run: "handleGeneration P background text_model blur p =
      on_blob P response myBlob (call_setStartLoading \<lparr>page_of = p, calls = []\<rparr>)"
    by (simp add: run_blob_read)
  show "calls (handleGeneration P background text_model blur p) =
            [SetStartLoading, SetStopLoading (JBool False) JUndefined]"
    unfolding run by (simp add: on_blob_calls calls_start)
  show "error_details_text (page_of (handleGeneration P background text_model blur p)) = ''Unknown error '' @ [CHR 0xF0, CHR 0x9F, CHR 0x98, CHR 0xA2]"
    unfolding run by (simp add: on_blob_error_region default_errorMsg_def)
  show "error_display (page_of (handleGeneration P background text_model blur p)) = ''none''"
    unfolding run by (simp add: on_blob_error_region)
qed (simp_all add: setStopLoading_def default_errorMsg_def)

text \<open>A success after an error: the details text "rate limited" is replaced.\<close>

theorem setStopLoading_overwrites_details_witness:
  "fetch platform_image (request_url (JStr ''beach'') (JStr ''flux'') (JStr ''1'')) = Some response_image
   \<and> resp_ok response_image
   \<and> resp_blob response_image = Some ''PNG''
   \<and> calls (handleGeneration platform_image (JStr ''beach'') (JStr ''flux'') (JStr ''1'') (idle_page\<lparr>error_details_text := ''rate limited''\<rparr>)) =
        [SetStartLoading, SetStopLoading (JBool False) JUndefined]
   \<and> error_details_text (page_of (handleGeneration platform_image (JStr ''beach'') (JStr ''flux'') (JStr ''1'')
        (idle_page\<lparr>error_details_text := ''rate limited''\<rparr>))) = ''Unknown error '' @ [CHR 0xF0, CHR 0x9F, CHR 0x98, CHR 0xA2]
   \<and> error_display (page_of (handleGeneration platform_image (JStr ''beach'') (JStr ''flux'') (JStr ''1'')
        (idle_page\<lparr>error_details_text := ''rate limited''\<rparr>))) = ''none''"
  using setStopLoading_overwrites_details [where P = platform_image and background = "JStr ''beach''"
        and text_model = "JStr ''flux''" and blur = "JStr ''1''" and response = response_image
        and myBlob = "''PNG''" and p = "idle_page\<lparr>error_details_text := ''rate limited''\<rparr>"]
      image_facts(1-3)
  by simp

text \<open>
  C10 as stated fails for a response with a success status whose body cannot be read:
  \<^verbatim>\<open>setStopLoading(false)\<close> is not called, and the details text of an earlier error stays.
\<close>

theorem handleGeneration_unreadable_body_details:
  "fetch platform_image_unreadable (request_url (JStr ''beach'') (JStr ''flux'') (JStr ''1'')) = Some response_image_unreadable
   \<and> resp_ok response_image_unreadable
   \<and> calls (handleGeneration platform_image_unreadable (JStr ''beach'') (JStr ''flux'') (JStr ''1'')
        (idle_page\<lparr>error_details_text := ''rate limited''\<rparr>)) = [SetStartLoading]
   \<and> SetStopLoading (JBool False) JUndefined \<notin> set (calls (handleGeneration platform_image_unreadable (JStr ''beach'') (JStr ''flux'') (JStr ''1'')
        (idle_page\<lparr>error_details_text := ''rate limited''\<rparr>)))
   \<and> error_details_text (page_of (handleGeneration platform_image_unreadable (JStr ''beach'') (JStr ''flux'') (JStr ''1'')
        (idle_page\<lparr>error_details_text := ''rate limited''\<rparr>))) = ''rate limited''
   \<and> error_details_text (page_of (handleGeneration platform_image_unreadable (JStr ''beach'') (JStr ''flux'') (JStr ''1'')
        (idle_page\<lparr>error_details_text := ''rate limited''\<rparr>))) \<noteq> ''Unknown error '' @ [CHR 0xF0, CHR 0x9F, CHR 0x98, CHR 0xA2]"
  using image_unreadable_facts(1,2)
  by (simp add: unreadable_run [OF image_unreadable_facts(1-3)] setStartLoading_def idle_page_def)

end
